theory Spec2Isabelle
  imports Main "HOL-Library.Sublist"
begin

section \<open>Content utilities of the blog: slugs, tag filter, RSS feed items\<close>

text \<open>
  The development covers \<^verbatim>\<open>src/config.ts\<close> (the constant \<^verbatim>\<open>SITE\<close>),
  \<^verbatim>\<open>src/utils/getPostsByTag.ts\<close> and the RSS endpoint \<^verbatim>\<open>get\<close>.
  Text is modelled as \<^typ>\<open>string\<close>; JavaScript arrays as lists.
\<close>

subsection \<open>Site configuration (config.ts)\<close>

record Site =
  website :: string
  author :: string
  desc :: string
  title :: string
  ogImage :: string
  lightAndDarkMode :: bool
  postPerPage :: nat

definition SITE :: Site where
  "SITE = \<lparr>
     website = ''https://abgier-avraha.github.io/'',
     author = ''Abgier Avraha'',
     desc = ''A blog for React TypeScript and Dotnet developers.'',
     title = ''Producing Value'',
     ogImage = ''default-og.png'',
     lightAndDarkMode = True,
     postPerPage = 3
   \<rparr>"

subsection \<open>Posts\<close>

text \<open>
  Modelled from the spec: the type declaration \<^verbatim>\<open>Frontmatter\<close> (\<^verbatim>\<open>src/types\<close>) is
  not among the sources; the fields are those the specification lists for a frontmatter
  block (section 6), in the order of the content file. \<^verbatim>\<open>slug\<close> and \<^verbatim>\<open>ogImage\<close> are
  optional there. The draft flag is read by the feed builder through JavaScript's
  truthiness coercion (\<^verbatim>\<open>!frontmatter.draft\<close>), which also accepts a frontmatter block
  without the field; \<open>None\<close> stands for the absent (\<^verbatim>\<open>undefined\<close>) flag.
\<close>

record Frontmatter =
  author :: string
  datetime :: string
  title :: string
  slug :: "string option"
  featured :: bool
  draft :: "bool option"
  tags :: "string list"
  ogImage :: "string option"
  description :: string

text \<open>
  \<^verbatim>\<open>MarkdownInstance<T>\<close> is a type of the site generator. The utilities read only its
  \<^verbatim>\<open>frontmatter\<close>; \<open>file_path\<close> (its field \<^verbatim>\<open>file\<close>, the path of the content
  file) keeps two posts with equal frontmatter apart.
\<close>

record 'a MarkdownInstance =
  frontmatter :: 'a
  file_path :: string

text \<open>JavaScript's \<^verbatim>\<open>ToBoolean\<close> on a flag that is \<^verbatim>\<open>undefined\<close>, \<^verbatim>\<open>false\<close> or \<^verbatim>\<open>true\<close>.\<close>

fun truthy :: "bool option \<Rightarrow> bool" where
  "truthy None = False"
| "truthy (Some b) = b"

subsection \<open>Slugifier\<close>

text \<open>
  Modelled from the spec: the module \<^verbatim>\<open>src/utils/slugify.ts\<close> (exports \<^verbatim>\<open>slugify\<close>,
  \<^verbatim>\<open>slufigyAll\<close>) is not among the sources. Section 4.1 of the specification:
  the slug of a text is the text ``lower-cased, whitespace and punctuation replaced by a
  single separator, leading/trailing separators trimmed''; ``when given a sequence of
  tags, produces a sequence of slugs in the same order, one per input''.
  Characters are classified by their code: whitespace is the space and the codes 9 to 13,
  punctuation is the printable ASCII that is neither a letter nor a digit, lower-casing
  maps \<^verbatim>\<open>A\<close>..\<^verbatim>\<open>Z\<close> to \<^verbatim>\<open>a\<close>..\<^verbatim>\<open>z\<close>. The separator is the hyphen.
\<close>

definition is_whitespace :: "char \<Rightarrow> bool" where
  "is_whitespace c = (let n = (of_char c :: nat) in n = 32 \<or> (9 \<le> n \<and> n \<le> 13))"

definition is_punctuation :: "char \<Rightarrow> bool" where
  "is_punctuation c =
     (let n = (of_char c :: nat)
      in (33 \<le> n \<and> n \<le> 47) \<or> (58 \<le> n \<and> n \<le> 64) \<or> (91 \<le> n \<and> n \<le> 96) \<or> (123 \<le> n \<and> n \<le> 126))"

definition to_separate :: "char \<Rightarrow> bool" where
  "to_separate c = (is_whitespace c \<or> is_punctuation c)"

definition separator :: char where
  "separator = CHR ''-''"

definition toLowerCase :: "char \<Rightarrow> char" where
  "toLowerCase c =
     (let n = (of_char c :: nat) in if 65 \<le> n \<and> n \<le> 90 then char_of (n + 32) else c)"

text \<open>
  Every maximal run of whitespace and punctuation becomes one separator; the flag tells
  whether the previous character already belonged to such a run.
\<close>

fun replace_runs :: "bool \<Rightarrow> string \<Rightarrow> string" where
  "replace_runs prev [] = []"
| "replace_runs prev (c # cs) =
     (if to_separate c
      then (if prev then replace_runs True cs else separator # replace_runs True cs)
      else c # replace_runs False cs)"

definition trim_leading :: "string \<Rightarrow> string" where
  "trim_leading s = dropWhile (\<lambda>c. c = separator) s"

fun trim_trailing :: "string \<Rightarrow> string" where
  "trim_trailing [] = []"
| "trim_trailing (c # cs) =
     (if c = separator \<and> trim_trailing cs = [] then [] else c # trim_trailing cs)"

text \<open>Modelled from the spec: the slug of one text (section 4.1).\<close>

definition slugifyStr :: "string \<Rightarrow> string" where
  "slugifyStr str = trim_trailing (trim_leading (replace_runs False (map toLowerCase str)))"

text \<open>
  Modelled from the spec: \<^verbatim>\<open>slufigyAll\<close> of \<^verbatim>\<open>src/utils/slugify.ts\<close>, the slugifier
  applied to a sequence of tags, one slug per tag (section 4.1).
\<close>

definition slufigyAll :: "string list \<Rightarrow> string list" where
  "slufigyAll arr = map slugifyStr arr"

subsection \<open>Tag filter (utils/getPostsByTag.ts)\<close>

text \<open>
  \<^verbatim>\<open>posts.filter(post => slufigyAll(post.frontmatter.tags).includes(tag))\<close>.
  On strings \<^verbatim>\<open>includes\<close> compares by equality.
\<close>

definition getPostsByTag ::
  "Frontmatter MarkdownInstance list \<Rightarrow> string \<Rightarrow> Frontmatter MarkdownInstance list" where
  "getPostsByTag posts tag =
     filter (\<lambda>post. tag \<in> set (slufigyAll (tags (frontmatter post)))) posts"

subsection \<open>Feed builder (the RSS endpoint)\<close>

text \<open>
  A JavaScript \<^verbatim>\<open>Date\<close> holds a time value: milliseconds since the epoch, or
  \<^verbatim>\<open>NaN\<close> (\<open>None\<close>), the ``Invalid Date''. \<^verbatim>\<open>new Date(s)\<close> on a string never throws:
  it stores \<^verbatim>\<open>Date.parse(s)\<close>, which is \<^verbatim>\<open>NaN\<close> for a string the host does not
  recognise. Which strings a host recognises beyond the ECMAScript format is left to the
  host, so \<^verbatim>\<open>Date.parse\<close> is a parameter of the model.
\<close>

datatype Date = Date (getTime: "int option")

definition new_Date :: "(string \<Rightarrow> int option) \<Rightarrow> string \<Rightarrow> Date" where
  "new_Date Date_parse s = Date (Date_parse s)"

record RSSFeedItem =
  link :: string
  title :: string
  description :: string
  pubDate :: Date

record RSSOptions =
  title :: string
  description :: string
  site :: string
  items :: "RSSFeedItem list"

text \<open>
  \<^verbatim>\<open>get\<close> hands this record to the \<^verbatim>\<open>rss\<close> function of the generator's RSS package,
  which serialises it; the model of \<^verbatim>\<open>get\<close> is the record. The module constant
  \<^verbatim>\<open>posts\<close> (all content files, loaded eagerly) is the argument \<open>posts\<close>.
  \<^verbatim>\<open>slugify\<close>, the default export of \<^verbatim>\<open>src/utils/slugify.ts\<close> that computes the slug
  of a post from its frontmatter, is not among the sources and is a parameter.
\<close>

definition get ::
  "(Frontmatter \<Rightarrow> string) \<Rightarrow> (string \<Rightarrow> int option) \<Rightarrow>
     Frontmatter MarkdownInstance list \<Rightarrow> RSSOptions" where
  "get slugify Date_parse posts = \<lparr>
     title = Site.title SITE,
     description = desc SITE,
     site = website SITE,
     items =
       map (\<lambda>post. \<lparr>
              link = ''posts/'' @ slugify (frontmatter post),
              title = Frontmatter.title (frontmatter post),
              description = Frontmatter.description (frontmatter post),
              pubDate = new_Date Date_parse (datetime (frontmatter post))
            \<rparr>)
         (filter (\<lambda>post. \<not> truthy (draft (frontmatter post))) posts)
   \<rparr>"

subsection \<open>The normal form of slugs\<close>

text \<open>
  A text is in slug form when it is made of separators and of characters that the
  slugifier keeps unchanged, with no two separators in a row; the flag forbids a
  separator at the front.
\<close>

fun slug_form :: "bool \<Rightarrow> string \<Rightarrow> bool" where
  "slug_form prev [] = True"
| "slug_form prev (c # cs) =
     (if c = separator then \<not> prev \<and> slug_form True cs
      else \<not> to_separate c \<and> toLowerCase c = c \<and> slug_form False cs)"

subsection \<open>Example posts\<close>

text \<open>
  The posts of the specification's example (section 8) give a title, the tags and the
  draft flag; the other fields are filled in after the content file of the repository.
\<close>

definition example_post ::
  "string \<Rightarrow> string list \<Rightarrow> bool option \<Rightarrow> Frontmatter MarkdownInstance" where
  "example_post t ts d = \<lparr>
     frontmatter = \<lparr>
       author = ''Abgier Avraha'',
       datetime = ''2022-12-01T11:00:00.348Z'',
       title = t,
       slug = None,
       featured = False,
       draft = d,
       tags = ts,
       ogImage = None,
       description = ''About '' @ t
     \<rparr>,
     file_path = ''../contents/'' @ t @ ''.md''
   \<rparr>"

definition postA :: "Frontmatter MarkdownInstance" where
  "postA = example_post ''A'' [''Guide''] (Some False)"

definition postB :: "Frontmatter MarkdownInstance" where
  "postB = example_post ''B'' [''guide''] (Some True)"

text \<open>
  Instances of the two parameters of \<open>get\<close> for the examples: a slug taken from the
  frontmatter's slug, or else from its title; and a host parser that recognises the
  timestamp of the example posts (2022-12-01T11:00:00.348Z is 1669892400348 ms after
  the epoch) and no other string.
\<close>

definition example_slugify :: "Frontmatter \<Rightarrow> string" where
  "example_slugify fm =
     (case slug fm of Some s \<Rightarrow> slugifyStr s | None \<Rightarrow> slugifyStr (Frontmatter.title fm))"

definition example_Date_parse :: "string \<Rightarrow> int option" where
  "example_Date_parse s =
     (if s = ''2022-12-01T11:00:00.348Z'' then Some 1669892400348 else None)"

section \<open>Properties\<close>

subsection \<open>Characters\<close>

lemma to_separate_separator: "to_separate separator"
  by (simp add: to_separate_def is_punctuation_def is_whitespace_def separator_def)

lemma toLowerCase_separator: "toLowerCase separator = separator"
  by (simp add: toLowerCase_def separator_def)

lemma of_char_toLowerCase:
  "(of_char (toLowerCase c) :: nat) =
     (if 65 \<le> (of_char c :: nat) \<and> (of_char c :: nat) \<le> 90 then of_char c + 32 else of_char c)"
  by (simp add: toLowerCase_def Let_def)

lemma toLowerCase_idem: "toLowerCase (toLowerCase c) = toLowerCase c"
proof (cases "65 \<le> (of_char c :: nat) \<and> (of_char c :: nat) \<le> 90")
  case True
  then have "\<not> (65 \<le> (of_char (toLowerCase c) :: nat) \<and> (of_char (toLowerCase c) :: nat) \<le> 90)"
    by (simp add: of_char_toLowerCase)
  then show ?thesis
    unfolding toLowerCase_def [of "toLowerCase c"] Let_def by (rule if_not_P)
next
  case False
  then have "toLowerCase c = c"
    unfolding toLowerCase_def Let_def by (rule if_not_P)
  then show ?thesis by simp
qed

lemma to_separate_toLowerCase: "to_separate (toLowerCase c) = to_separate c"
  unfolding to_separate_def is_whitespace_def is_punctuation_def Let_def of_char_toLowerCase
  by auto

lemma toLowerCase_not_separator: "\<not> to_separate c \<Longrightarrow> toLowerCase c \<noteq> separator"
  using to_separate_toLowerCase [of c] to_separate_separator by auto

subsection \<open>Each pass of the slugifier and the slug form\<close>

lemma slug_form_replace_runs: "slug_form b (replace_runs b (map toLowerCase s))"
  by (induction s arbitrary: b)
    (simp_all add: to_separate_toLowerCase toLowerCase_idem toLowerCase_not_separator)

lemma slug_form_trim_leading: "slug_form b s \<Longrightarrow> slug_form b' (trim_leading s)"
  by (induction s arbitrary: b) (auto simp: trim_leading_def split: if_splits)

lemma slug_form_trim_trailing: "slug_form b s \<Longrightarrow> slug_form b (trim_trailing s)"
  by (induction s arbitrary: b) (auto split: if_splits)

lemma slug_form_toLowerCase: "slug_form b s \<Longrightarrow> map toLowerCase s = s"
  by (induction s arbitrary: b) (auto simp: toLowerCase_separator split: if_splits)

lemma slug_form_replace_runs_id: "slug_form b s \<Longrightarrow> replace_runs b s = s"
  by (induction s arbitrary: b) (auto simp: to_separate_separator split: if_splits)

lemma trim_trailing_idem: "trim_trailing (trim_trailing s) = trim_trailing s"
  by (induction s) auto

lemma trim_leading_after_trailing:
  "trim_leading (trim_trailing (trim_leading s)) = trim_trailing (trim_leading s)"
proof -
  have "trim_trailing t = [] \<or> hd (trim_trailing t) = hd t" for t
    by (cases t) auto
  moreover have "trim_leading s = [] \<or> hd (trim_leading s) \<noteq> separator"
    unfolding trim_leading_def by (metis (mono_tags, lifting) hd_dropWhile)
  ultimately have
    "trim_trailing (trim_leading s) = [] \<or> hd (trim_trailing (trim_leading s)) \<noteq> separator"
    by (metis trim_trailing.simps(1))
  then show ?thesis
    unfolding trim_leading_def [of "trim_trailing (trim_leading s)"]
    by (cases "trim_trailing (trim_leading s)") auto
qed

lemma slug_form_slugifyStr: "slug_form False (slugifyStr x)"
  unfolding slugifyStr_def
  by (intro slug_form_trim_trailing slug_form_trim_leading [where b = False]
      slug_form_replace_runs)

text \<open>The example of section 8 of the specification.\<close>

lemma slugifyStr_Hello_World: "slugifyStr ''Hello World!'' = ''hello-world''"
  by code_simp

lemma slugifyStr_Guide: "slugifyStr ''Guide'' = ''guide''"
  by code_simp

lemma slugifyStr_guide: "slugifyStr ''guide'' = ''guide''"
  by code_simp

lemma slugifyStr_guides: "slugifyStr ''guides'' = ''guides''"
  by code_simp

lemma slugifyStr_A: "slugifyStr ''A'' = ''a''"
  by code_simp

subsection \<open>The items of the feed\<close>

lemma items_get:
  "items (get slugify Date_parse posts) =
     map (\<lambda>post. \<lparr>
            link = ''posts/'' @ slugify (frontmatter post),
            title = Frontmatter.title (frontmatter post),
            description = Frontmatter.description (frontmatter post),
            pubDate = new_Date Date_parse (datetime (frontmatter post))
          \<rparr>)
       (filter (\<lambda>post. \<not> truthy (draft (frontmatter post))) posts)"
  by (simp add: get_def)

lemma count_list_filter:
  "count_list (filter Q xs) x = (if Q x then count_list xs x else 0)"
  by (induction xs) auto

subsection \<open>Slugifier\<close>

text \<open>
  Claim C6: for every text \<open>x\<close>, slugifying the slug of \<open>x\<close> gives the slug of \<open>x\<close>
  again: the slugifier is a function of its input (deterministic) and idempotent.
\<close>

theorem slugifyStr_idempotent: "slugifyStr (slugifyStr x) = slugifyStr x"
proof -
  let ?s = "slugifyStr x"
  have f: "slug_form False ?s" by (rule slug_form_slugifyStr)
  have "slugifyStr ?s = trim_trailing (trim_leading ?s)"
    unfolding slugifyStr_def [of ?s]
    by (simp add: slug_form_toLowerCase [OF f] slug_form_replace_runs_id [OF f])
  also have "\<dots> = ?s"
    unfolding slugifyStr_def [of x]
    by (simp add: trim_leading_after_trailing trim_trailing_idem)
  finally show ?thesis .
qed

text \<open>
  Claim C7: applied to a sequence of \<open>N\<close> tags, the slugifier returns a sequence of
  exactly \<open>N\<close> slugs, the \<open>i\<close>-th being the slug of the \<open>i\<close>-th tag; nothing is dropped,
  also when two tags have the same slug.
\<close>

theorem slufigyAll_elementwise:
  "length (slufigyAll ts) = length ts
   \<and> (\<forall>i < length ts. slufigyAll ts ! i = slugifyStr (ts ! i))"
  by (simp add: slufigyAll_def)

theorem slufigyAll_elementwise_witness:
  "length (slufigyAll [''Guide'', ''guide'']) = 2
   \<and> slufigyAll [''Guide'', ''guide''] ! 0 = ''guide''
   \<and> slufigyAll [''Guide'', ''guide''] ! 1 = ''guide''
   \<and> slufigyAll [''Guide'', ''guide''] = [''guide'', ''guide'']"
proof -
  let ?ts = "[''Guide'', ''guide'']"
  have l: "length (slufigyAll ?ts) = length ?ts"
    and n: "\<forall>i < length ?ts. slufigyAll ?ts ! i = slugifyStr (?ts ! i)"
    using slufigyAll_elementwise [of ?ts] by blast+
  have "slufigyAll ?ts ! 0 = ''guide''"
    using n [rule_format, of 0] by (simp add: slugifyStr_Guide)
  moreover have "slufigyAll ?ts ! 1 = ''guide''"
    using n [rule_format, of 1] by (simp add: slugifyStr_guide)
  moreover have "slufigyAll ?ts = [''guide'', ''guide'']"
    by (simp add: slufigyAll_def slugifyStr_Guide slugifyStr_guide)
  ultimately show ?thesis using l by simp
qed

subsection \<open>Tag filter\<close>

text \<open>
  Claim C1, as the specification's example states it: on the posts A (tags Guide, not a
  draft) and B (tags guide, a draft) the filter for the tag guide would return A alone.
  It does not: the filter never reads the draft flag, and B carries the tag.
\<close>

theorem getPostsByTag_example_counterexample:
  "getPostsByTag [postA, postB] ''guide'' \<noteq> [postA]"
  by (simp add: getPostsByTag_def postA_def postB_def example_post_def slufigyAll_def
      slugifyStr_Guide slugifyStr_guide)

text \<open>
  Claim C1, amended: on the two posts of the example the filter for the tag guide returns
  both posts, A then B; the tag of A matches through its slug, and the draft B is kept.
\<close>

theorem getPostsByTag_example:
  "getPostsByTag [postA, postB] ''guide'' = [postA, postB]"
  by (simp add: getPostsByTag_def postA_def postB_def example_post_def slufigyAll_def
      slugifyStr_Guide slugifyStr_guide)

text \<open>
  Claim C3: for all posts \<open>P\<close> and every tag \<open>T\<close>, the result of the filter is a subsequence
  of \<open>P\<close> in the original order, every post of the result has \<open>T\<close> among its slugified
  tags, and a post is selected exactly when one of its slugified tags is equal to \<open>T\<close>.
\<close>

theorem getPostsByTag_subseq_exact:
  "subseq (getPostsByTag P T) P
   \<and> (\<forall>post \<in> set (getPostsByTag P T). T \<in> set (slufigyAll (tags (frontmatter post))))
   \<and> getPostsByTag P T =
       filter (\<lambda>post. \<exists>s \<in> set (slufigyAll (tags (frontmatter post))). s = T) P"
  by (simp add: getPostsByTag_def)

text \<open>The tag guides does not match the target guide: no partial match.\<close>

theorem getPostsByTag_subseq_exact_witness:
  "postA \<in> set (getPostsByTag [example_post ''C'' [''guides''] (Some False), postA] ''guide'')
   \<and> ''guide'' \<in> set (slufigyAll (tags (frontmatter postA)))
   \<and> subseq (getPostsByTag [example_post ''C'' [''guides''] (Some False), postA] ''guide'')
        [example_post ''C'' [''guides''] (Some False), postA]
   \<and> getPostsByTag [example_post ''C'' [''guides''] (Some False), postA] ''guide'' = [postA]"
proof -
  let ?P = "[example_post ''C'' [''guides''] (Some False), postA]"
  have r: "getPostsByTag ?P ''guide'' = [postA]"
    by (simp add: getPostsByTag_def postA_def example_post_def slufigyAll_def
        slugifyStr_Guide slugifyStr_guides)
  then have m: "postA \<in> set (getPostsByTag ?P ''guide'')" by simp
  from getPostsByTag_subseq_exact [of ?P "''guide''"]
  have s: "subseq (getPostsByTag ?P ''guide'') ?P"
    and a: "\<forall>post \<in> set (getPostsByTag ?P ''guide'').
              ''guide'' \<in> set (slufigyAll (tags (frontmatter post)))"
    by blast+
  from a m have "''guide'' \<in> set (slufigyAll (tags (frontmatter postA)))" by blast
  with m s r show ?thesis by blast
qed

text \<open>
  Claim C8: when no post of \<open>P\<close> has \<open>T\<close> among its slugified tags, the filter returns the
  empty sequence; the filter is a total function with no error result.
\<close>

theorem getPostsByTag_no_match:
  "(\<forall>post \<in> set P. T \<notin> set (slufigyAll (tags (frontmatter post)))) \<Longrightarrow>
     getPostsByTag P T = []"
  by (simp add: getPostsByTag_def)

theorem getPostsByTag_no_match_witness:
  "getPostsByTag [postA, postB] ''rust'' = []"
proof -
  have "\<forall>post \<in> set [postA, postB]. ''rust'' \<notin> set (slufigyAll (tags (frontmatter post)))"
    by (simp add: postA_def postB_def example_post_def slufigyAll_def
        slugifyStr_Guide slugifyStr_guide)
  then show ?thesis by (rule getPostsByTag_no_match)
qed

text \<open>
  Claim C10: a post whose slugified tags contain \<open>T\<close> more than once is returned once, at
  its position between the results for the posts before it and for the posts after it;
  in the result of any collection it occurs as often as in the collection itself.
\<close>

theorem getPostsByTag_duplicate_tags:
  "1 < count_list (slufigyAll (tags (frontmatter post))) T \<Longrightarrow>
     getPostsByTag (before @ post # after) T
       = getPostsByTag before T @ post # getPostsByTag after T
     \<and> count_list (getPostsByTag P T) post = count_list P post"
proof -
  assume "1 < count_list (slufigyAll (tags (frontmatter post))) T"
  then have "T \<in> set (slufigyAll (tags (frontmatter post)))"
    by (metis count_list_0_iff not_one_less_zero)
  then show ?thesis by (simp add: getPostsByTag_def count_list_filter)
qed

theorem getPostsByTag_duplicate_tags_witness:
  "count_list
     (slufigyAll (tags (frontmatter (example_post ''D'' [''Guide'', ''guide''] (Some False)))))
     ''guide'' = 2
   \<and> getPostsByTag [postB, example_post ''D'' [''Guide'', ''guide''] (Some False), postA] ''guide''
       = [postB, example_post ''D'' [''Guide'', ''guide''] (Some False), postA]
   \<and> count_list
       (getPostsByTag [postB, example_post ''D'' [''Guide'', ''guide''] (Some False), postA]
          ''guide'')
       (example_post ''D'' [''Guide'', ''guide''] (Some False)) = 1"
proof -
  let ?D = "example_post ''D'' [''Guide'', ''guide''] (Some False)"
  have c: "count_list (slufigyAll (tags (frontmatter ?D))) ''guide'' = 2"
    by (simp add: example_post_def slufigyAll_def slugifyStr_Guide slugifyStr_guide)
  then have h: "1 < count_list (slufigyAll (tags (frontmatter ?D))) ''guide''" by simp
  have b: "getPostsByTag [postB] ''guide'' = [postB]"
    by (simp add: getPostsByTag_def postB_def example_post_def slufigyAll_def slugifyStr_guide)
  have a: "getPostsByTag [postA] ''guide'' = [postA]"
    by (simp add: getPostsByTag_def postA_def example_post_def slufigyAll_def slugifyStr_Guide)
  have n: "count_list [postB, ?D, postA] ?D = 1"
    by (simp add: postA_def postB_def example_post_def)
  from getPostsByTag_duplicate_tags [OF h, of "[postB]" "[postA]" "[postB, ?D, postA]"] a b n c
  show ?thesis by simp
qed

subsection \<open>Feed builder\<close>

text \<open>
  On a collection in which every post carries a boolean draft flag, the posts of the feed
  are the posts whose flag is false.
\<close>

lemma feed_boolean_flags:
  assumes "\<forall>post \<in> set P. draft (frontmatter post) \<noteq> None"
  shows "filter (\<lambda>post. \<not> truthy (draft (frontmatter post))) P
    = filter (\<lambda>post. draft (frontmatter post) = Some False) P"
proof (rule filter_cong [OF refl])
  fix post assume "post \<in> set P"
  with assms obtain b where "draft (frontmatter post) = Some b" by auto
  then show "(\<not> truthy (draft (frontmatter post))) = (draft (frontmatter post) = Some False)"
    by simp
qed

text \<open>
  Claim C2: for every collection \<open>P\<close> of post records, whose draft flag is a boolean, the
  feed holds exactly one item per post of \<open>P\<close> whose draft flag is false, in the order of
  \<open>P\<close> and with the same count. On any collection, every non-draft post (a post not
  flagged as a draft) has exactly one item, and the feed holds nothing else.
\<close>

theorem feed_one_item_per_non_draft:
  "items (get slugify Date_parse P) =
     map (\<lambda>post. \<lparr>
            link = ''posts/'' @ slugify (frontmatter post),
            title = Frontmatter.title (frontmatter post),
            description = Frontmatter.description (frontmatter post),
            pubDate = new_Date Date_parse (datetime (frontmatter post))
          \<rparr>)
       (filter (\<lambda>post. \<not> truthy (draft (frontmatter post))) P)
   \<and> length (items (get slugify Date_parse P)) =
       length (filter (\<lambda>post. \<not> truthy (draft (frontmatter post))) P)
   \<and> ((\<forall>post \<in> set P. draft (frontmatter post) \<noteq> None) \<longrightarrow>
        items (get slugify Date_parse P) =
          map (\<lambda>post. \<lparr>
                 link = ''posts/'' @ slugify (frontmatter post),
                 title = Frontmatter.title (frontmatter post),
                 description = Frontmatter.description (frontmatter post),
                 pubDate = new_Date Date_parse (datetime (frontmatter post))
               \<rparr>)
            (filter (\<lambda>post. draft (frontmatter post) = Some False) P)
        \<and> length (items (get slugify Date_parse P)) =
            length (filter (\<lambda>post. draft (frontmatter post) = Some False) P))"
proof (intro conjI impI)
  assume "\<forall>post \<in> set P. draft (frontmatter post) \<noteq> None"
  then have e: "filter (\<lambda>post. \<not> truthy (draft (frontmatter post))) P
      = filter (\<lambda>post. draft (frontmatter post) = Some False) P"
    by (rule feed_boolean_flags)
  show "items (get slugify Date_parse P) =
      map (\<lambda>post. \<lparr>
             link = ''posts/'' @ slugify (frontmatter post),
             title = Frontmatter.title (frontmatter post),
             description = Frontmatter.description (frontmatter post),
             pubDate = new_Date Date_parse (datetime (frontmatter post))
           \<rparr>)
        (filter (\<lambda>post. draft (frontmatter post) = Some False) P)"
    by (simp only: items_get e)
  show "length (items (get slugify Date_parse P)) =
      length (filter (\<lambda>post. draft (frontmatter post) = Some False) P)"
    by (simp only: items_get e length_map)
qed (simp_all add: items_get)

theorem feed_one_item_per_non_draft_witness:
  "filter (\<lambda>post. draft (frontmatter post) = Some False) [postB, postA] = [postA]
   \<and> items (get example_slugify example_Date_parse [postB, postA])
       = [\<lparr>link = ''posts/a'', title = ''A'', description = ''About A'',
            pubDate = Date (Some 1669892400348)\<rparr>]
   \<and> length (items (get example_slugify example_Date_parse [postB, postA])) = 1"
proof -
  have h: "\<forall>post \<in> set [postB, postA]. draft (frontmatter post) \<noteq> None"
    by (auto simp: postA_def postB_def example_post_def)
  have f: "filter (\<lambda>post. draft (frontmatter post) = Some False) [postB, postA] = [postA]"
    by (simp add: postA_def postB_def example_post_def)
  have a: "example_slugify (frontmatter postA) = ''a''"
    "Frontmatter.title (frontmatter postA) = ''A''"
    "Frontmatter.description (frontmatter postA) = ''About A''"
    "new_Date example_Date_parse (datetime (frontmatter postA)) = Date (Some 1669892400348)"
    by (simp_all add: example_slugify_def postA_def example_post_def slugifyStr_A
        new_Date_def example_Date_parse_def)
  from feed_one_item_per_non_draft [of example_slugify example_Date_parse "[postB, postA]"] h
  have "items (get example_slugify example_Date_parse [postB, postA]) =
      map (\<lambda>post. \<lparr>
             link = ''posts/'' @ example_slugify (frontmatter post),
             title = Frontmatter.title (frontmatter post),
             description = Frontmatter.description (frontmatter post),
             pubDate = new_Date example_Date_parse (datetime (frontmatter post))
           \<rparr>)
        (filter (\<lambda>post. draft (frontmatter post) = Some False) [postB, postA])"
    by blast
  then have "items (get example_slugify example_Date_parse [postB, postA])
       = [\<lparr>link = ''posts/a'', title = ''A'', description = ''About A'',
            pubDate = Date (Some 1669892400348)\<rparr>]"
    unfolding f by (simp add: a)
  with f show ?thesis by simp
qed

text \<open>
  Claim C4: the \<open>i\<close>-th item of the feed belongs to the \<open>i\<close>-th non-draft post; its link
  is the prefix \<^verbatim>\<open>posts/\<close> followed by the slug of the post, its title and description
  are those of the post, and its publish date is the \<^verbatim>\<open>Date\<close> made from the post's
  datetime, whose time value is what the host's parser returns for it.
\<close>

theorem feed_item_fields:
  "i < length (filter (\<lambda>post. \<not> truthy (draft (frontmatter post))) P) \<Longrightarrow>
   fm = frontmatter (filter (\<lambda>post. \<not> truthy (draft (frontmatter post))) P ! i) \<Longrightarrow>
   item = items (get slugify Date_parse P) ! i \<Longrightarrow>
     link item = ''posts/'' @ slugify fm
     \<and> RSSFeedItem.title item = Frontmatter.title fm
     \<and> RSSFeedItem.description item = Frontmatter.description fm
     \<and> pubDate item = new_Date Date_parse (datetime fm)
     \<and> getTime (pubDate item) = Date_parse (datetime fm)"
  by (simp add: items_get new_Date_def)

theorem feed_item_fields_witness:
  "link (items (get example_slugify example_Date_parse [postB, postA]) ! 0) = ''posts/a''
   \<and> RSSFeedItem.title (items (get example_slugify example_Date_parse [postB, postA]) ! 0)
       = ''A''
   \<and> RSSFeedItem.description (items (get example_slugify example_Date_parse [postB, postA]) ! 0)
       = ''About A''
   \<and> pubDate (items (get example_slugify example_Date_parse [postB, postA]) ! 0)
       = Date (Some 1669892400348)"
proof -
  let ?nd = "filter (\<lambda>post. \<not> truthy (draft (frontmatter post))) [postB, postA]"
  have nd: "?nd = [postA]"
    by (simp add: postA_def postB_def example_post_def)
  then have i: "0 < length ?nd" by simp
  have s: "example_slugify (frontmatter postA) = ''a''"
    by (simp add: example_slugify_def postA_def example_post_def slugifyStr_A)
  have f: "Frontmatter.title (frontmatter postA) = ''A''"
    "Frontmatter.description (frontmatter postA) = ''About A''"
    "new_Date example_Date_parse (datetime (frontmatter postA)) = Date (Some 1669892400348)"
    by (simp_all add: postA_def example_post_def new_Date_def example_Date_parse_def)
  from feed_item_fields [OF i refl refl, of example_slugify example_Date_parse]
  show ?thesis unfolding nd by (simp add: s f)
qed

text \<open>
  Claim C5, as stated: the feed builder produces no item from a datetime that cannot be
  parsed. It does: for post A with the datetime ``not a date'', which the parser rejects,
  the feed holds the item of A, its publish date being the invalid date.
\<close>

theorem feed_unparseable_datetime_counterexample:
  "example_Date_parse ''not a date'' = None
   \<and> items (get example_slugify example_Date_parse
        [postA\<lparr>frontmatter := (frontmatter postA)\<lparr>datetime := ''not a date''\<rparr>\<rparr>])
      = [\<lparr>link = ''posts/a'', title = ''A'', description = ''About A'', pubDate = Date None\<rparr>]"
  by (simp add: items_get postA_def example_post_def example_slugify_def slugifyStr_A
      new_Date_def example_Date_parse_def)

text \<open>
  Claim C5, amended: the feed builder does not check the datetime. A non-draft post whose
  datetime the host cannot parse still gets its item, at its place in the feed, with the
  invalid date as publish date; the builder has no error result of its own.
\<close>

theorem feed_keeps_unparseable_datetime:
  "Date_parse (datetime (frontmatter post)) = None \<Longrightarrow>
   \<not> truthy (draft (frontmatter post)) \<Longrightarrow>
     items (get slugify Date_parse (before @ post # after)) =
       items (get slugify Date_parse before)
       @ \<lparr>link = ''posts/'' @ slugify (frontmatter post),
           title = Frontmatter.title (frontmatter post),
           description = Frontmatter.description (frontmatter post),
           pubDate = Date None\<rparr>
       # items (get slugify Date_parse after)"
  by (simp add: items_get new_Date_def)

theorem feed_keeps_unparseable_datetime_witness:
  "items (get example_slugify example_Date_parse
      ([postA] @ postA\<lparr>frontmatter := (frontmatter postA)\<lparr>datetime := ''tomorrow''\<rparr>\<rparr> # [postB]))
    = [\<lparr>link = ''posts/a'', title = ''A'', description = ''About A'',
         pubDate = Date (Some 1669892400348)\<rparr>,
       \<lparr>link = ''posts/a'', title = ''A'', description = ''About A'', pubDate = Date None\<rparr>]"
proof -
  let ?bad = "postA\<lparr>frontmatter := (frontmatter postA)\<lparr>datetime := ''tomorrow''\<rparr>\<rparr>"
  have p: "example_Date_parse (datetime (frontmatter ?bad)) = None"
    by (simp add: example_Date_parse_def)
  have d: "\<not> truthy (draft (frontmatter ?bad))"
    by (simp add: postA_def example_post_def)
  have a: "items (get example_slugify example_Date_parse [postA])
      = [\<lparr>link = ''posts/a'', title = ''A'', description = ''About A'',
           pubDate = Date (Some 1669892400348)\<rparr>]"
    by (simp add: items_get postA_def example_post_def example_slugify_def slugifyStr_A
        new_Date_def example_Date_parse_def)
  have b: "items (get example_slugify example_Date_parse [postB]) = []"
    by (simp add: items_get postB_def example_post_def)
  have f: "example_slugify ((frontmatter postA)\<lparr>datetime := ''tomorrow''\<rparr>) = ''a''"
    "Frontmatter.title (frontmatter postA) = ''A''"
    "Frontmatter.description (frontmatter postA) = ''About A''"
    by (simp_all add: example_slugify_def postA_def example_post_def slugifyStr_A)
  from feed_keeps_unparseable_datetime
    [where Date_parse = example_Date_parse and post = ?bad and slugify = example_slugify
      and before = "[postA]" and after = "[postB]", OF p d]
  show ?thesis by (simp add: a b f)
qed

text \<open>
  Claim C9: the draft test is a test of falsiness. A post whose draft flag is absent gets
  its item at its place in the feed, the same item as with the flag false; only a post
  whose flag is true is left out.
\<close>

theorem feed_draft_falsiness:
  "(draft (frontmatter post) = None \<or> draft (frontmatter post) = Some False \<longrightarrow>
      items (get slugify Date_parse (before @ post # after)) =
        items (get slugify Date_parse before)
        @ \<lparr>link = ''posts/'' @ slugify (frontmatter post),
            title = Frontmatter.title (frontmatter post),
            description = Frontmatter.description (frontmatter post),
            pubDate = new_Date Date_parse (datetime (frontmatter post))\<rparr>
        # items (get slugify Date_parse after))
   \<and> (draft (frontmatter post) = Some True \<longrightarrow>
      items (get slugify Date_parse (before @ post # after)) =
        items (get slugify Date_parse before) @ items (get slugify Date_parse after))"
  by (auto simp: items_get)

theorem feed_draft_falsiness_witness:
  "items (get example_slugify example_Date_parse ([] @ example_post ''A'' [''Guide''] None # []))
     = [\<lparr>link = ''posts/a'', title = ''A'', description = ''About A'',
          pubDate = Date (Some 1669892400348)\<rparr>]
   \<and> items (get example_slugify example_Date_parse ([] @ postA # []))
     = [\<lparr>link = ''posts/a'', title = ''A'', description = ''About A'',
          pubDate = Date (Some 1669892400348)\<rparr>]
   \<and> items (get example_slugify example_Date_parse ([] @ postB # [])) = []"
proof -
  let ?U = "example_post ''A'' [''Guide''] None"
  have e: "items (get example_slugify example_Date_parse []) = []"
    by (simp add: items_get)
  have u: "draft (frontmatter ?U) = None \<or> draft (frontmatter ?U) = Some False"
    and a: "draft (frontmatter postA) = None \<or> draft (frontmatter postA) = Some False"
    and b: "draft (frontmatter postB) = Some True"
    by (simp_all add: postA_def postB_def example_post_def)
  have f: "example_slugify (frontmatter ?U) = ''a''"
    "Frontmatter.title (frontmatter ?U) = ''A''"
    "Frontmatter.description (frontmatter ?U) = ''About A''"
    "new_Date example_Date_parse (datetime (frontmatter ?U)) = Date (Some 1669892400348)"
    "example_slugify (frontmatter postA) = ''a''"
    "Frontmatter.title (frontmatter postA) = ''A''"
    "Frontmatter.description (frontmatter postA) = ''About A''"
    "new_Date example_Date_parse (datetime (frontmatter postA)) = Date (Some 1669892400348)"
    by (simp_all add: example_slugify_def postA_def example_post_def slugifyStr_A
        new_Date_def example_Date_parse_def)
  from feed_draft_falsiness [of ?U example_slugify example_Date_parse "[]" "[]"] u
  have 1: "items (get example_slugify example_Date_parse ([] @ ?U # []))
     = [\<lparr>link = ''posts/a'', title = ''A'', description = ''About A'',
          pubDate = Date (Some 1669892400348)\<rparr>]"
    by (simp add: e f)
  from feed_draft_falsiness [of postA example_slugify example_Date_parse "[]" "[]"] a
  have 2: "items (get example_slugify example_Date_parse ([] @ postA # []))
     = [\<lparr>link = ''posts/a'', title = ''A'', description = ''About A'',
          pubDate = Date (Some 1669892400348)\<rparr>]"
    by (simp add: e f)
  from feed_draft_falsiness [of postB example_slugify example_Date_parse "[]" "[]"] b
  have 3: "items (get example_slugify example_Date_parse ([] @ postB # [])) = []"
    by (simp add: e)
  from 1 2 3 show ?thesis by blast
qed

end
